theory Spec2Isabelle
  imports Main "HOL-Library.Sublist"
begin

section \<open>Service worker: data model\<close>

text \<open>
  The service worker script (cache names, asset manifest, fetch strategies, dispatcher,
  control messages, activation) and the application's \<open>StorageManager\<close> class are
  embedded as functions over explicit state. A rejected promise or a thrown exception
  is the left injection of a sum; \<open>await\<close> is sequencing.
\<close>

datatype js_error = JsError (err_name: string) (err_message: string)

text \<open>
  A response: status, status text, headers (names in lower case, as the platform
  lists them) and body.
\<close>

datatype response =
  Response (resp_status: nat) (resp_statusText: string)
           (resp_headers: "(string \<times> string) list") (resp_body: string)

text \<open>\<open>response.ok\<close>: the status is in the range 200..299.\<close>

definition ok :: "response \<Rightarrow> bool" where
  "ok r = (200 \<le> resp_status r \<and> resp_status r \<le> 299)"

text \<open>
  What an async function hands to its caller when it does not throw: a response object,
  or \<open>undefined\<close>.
\<close>

datatype jsval = Resp response | Undefined

text \<open>
  A request as the worker reads it: \<open>request.url\<close>, \<open>request.method\<close>, the request
  headers, and the origin of \<open>new URL(request.url)\<close>.
\<close>

record request =
  req_url :: string
  req_method :: string
  req_headers :: "(string \<times> string) list"
  req_origin :: string

text \<open>A cache holds pairs of a request and the response stored for it, oldest first.\<close>

type_synonym cache = "(request \<times> response) list"

datatype reply =
    VERSION_RESPONSE string
  | CACHE_CLEARED bool "string option"
  | CACHE_STATUS_RESPONSE "(string \<times> nat \<times> string list) list"

text \<open>
  The worker's world: the named caches of \<open>CacheStorage\<close> in creation order; the URLs
  for which a network fetch was issued; the messages posted to reply ports; the number
  of \<open>skipWaiting\<close> calls.
\<close>

record sw_state =
  caches :: "(string \<times> cache) list"
  fetched :: "string list"
  posted :: "(nat \<times> reply) list"
  skipWaiting_calls :: nat

text \<open>
  The environment decides what the platform answers: the outcome of \<open>fetch(request)\<close>,
  and for each storage call whether it rejects: \<open>caches.keys()\<close>,
  \<open>caches.delete(name)\<close>, \<open>caches.open(name)\<close>, a read of the cache called \<open>name\<close>
  (\<open>cache.match\<close>, \<open>cache.keys\<close>), and a write to it that the store has no room for
  (\<open>cache.put\<close>).
\<close>

record sw_env =
  net :: "request \<Rightarrow> js_error + response"
  keys_fault :: "js_error option"
  delete_fault :: "string \<Rightarrow> js_error option"
  open_fault :: "string \<Rightarrow> js_error option"
  read_fault :: "string \<Rightarrow> js_error option"
  put_fault :: "string \<Rightarrow> js_error option"

definition CACHE_NAME :: string where
  "CACHE_NAME = ''scanzo-qr-v2.1.0''"

definition STATIC_CACHE :: string where
  "STATIC_CACHE = ''scanzo-static-v2.1.0''"

definition DYNAMIC_CACHE :: string where
  "DYNAMIC_CACHE = ''scanzo-dynamic-v2.1.0''"

definition STATIC_ASSETS :: "string list" where
  "STATIC_ASSETS =
    [''./'',
     ''./index.html'',
     ''./styles.css'',
     ''./manifest.json'',
     ''./icons/icon-72.png'',
     ''./icons/icon-96.png'',
     ''./icons/icon-128.png'',
     ''./icons/icon-144.png'',
     ''./icons/icon-152.png'',
     ''./icons/icon-192.png'',
     ''./icons/icon-384.png'',
     ''./icons/icon-512.png'',
     ''https://fonts.googleapis.com/css2?family=Inter:wght@300;400;500;600;700;800;900&display=swap'',
     ''https://cdnjs.cloudflare.com/ajax/libs/font-awesome/6.4.0/css/all.min.css'',
     ''https://cdnjs.cloudflare.com/ajax/libs/qrcodejs/1.0.0/qrcode.min.js'',
     ''https://cdn.jsdelivr.net/npm/jsqr@1.4.0/dist/jsQR.js'']"

text \<open>
  Each entry of \<open>DYNAMIC_PATTERNS\<close> is a regular expression anchored at the start and
  made of literal characters only, so it is kept as the literal it matches, and
  \<open>pattern.test(url)\<close> is a prefix test.
\<close>

definition DYNAMIC_PATTERNS :: "string list" where
  "DYNAMIC_PATTERNS =
    [''https://fonts.gstatic.com/'',
     ''https://cdnjs.cloudflare.com/'',
     ''https://cdn.jsdelivr.net/'']"

definition pattern_test :: "string \<Rightarrow> string \<Rightarrow> bool" where
  "pattern_test pattern u = prefix pattern u"

subsection \<open>String methods\<close>

text \<open>\<open>s.includes(t)\<close>: \<open>t\<close> occurs in \<open>s\<close> as a contiguous run.\<close>

fun str_includes :: "string \<Rightarrow> string \<Rightarrow> bool" where
  "str_includes [] t = (t = [])"
| "str_includes (c # s) t = (prefix t (c # s) \<or> str_includes s t)"

text \<open>
  \<open>s.replace(pat, rep)\<close> with a string pattern: the first occurrence of \<open>pat\<close> is
  replaced, and \<open>s\<close> is returned as it is when there is none.
\<close>

fun replace :: "string \<Rightarrow> string \<Rightarrow> string \<Rightarrow> string" where
  "replace [] pat rep = (if pat = [] then rep else [])"
| "replace (c # s) pat rep =
     (if prefix pat (c # s) then rep @ drop (length pat) (c # s)
      else c # replace s pat rep)"

subsection \<open>Headers\<close>

definition lower_char :: "char \<Rightarrow> char" where
  "lower_char c =
     (case map_of (zip ''ABCDEFGHIJKLMNOPQRSTUVWXYZ'' ''abcdefghijklmnopqrstuvwxyz'') c of
        None \<Rightarrow> c
      | Some l \<Rightarrow> l)"

definition lowercase :: "string \<Rightarrow> string" where
  "lowercase s = map lower_char s"

text \<open>
  \<open>headers.get(name)\<close>: header names are compared without regard to case; the values of
  a name that occurs several times are joined with a comma and a space; \<open>None\<close> is
  \<open>null\<close>.
\<close>

definition header_get :: "(string \<times> string) list \<Rightarrow> string \<Rightarrow> string option" where
  "header_get hs name =
     (case map snd (filter (\<lambda>h. lowercase (fst h) = lowercase name) hs) of
        [] \<Rightarrow> None
      | v # vs \<Rightarrow> Some (foldl (\<lambda>a b. a @ '', '' @ b) v vs))"

fun split_commas :: "string \<Rightarrow> string list" where
  "split_commas [] = [[]]"
| "split_commas (c # s) =
     (if c = CHR '','' then [] # split_commas s
      else (case split_commas s of [] \<Rightarrow> [[c]] | x # xs \<Rightarrow> (c # x) # xs))"

definition is_space :: "char \<Rightarrow> bool" where
  "is_space c = (c = CHR '' '' \<or> c = CHR 0x09 \<or> c = CHR 0x0A \<or> c = CHR 0x0D)"

definition trim :: "string \<Rightarrow> string" where
  "trim s = rev (dropWhile is_space (rev (dropWhile is_space s)))"

text \<open>The field values of a response's \<open>Vary\<close> header.\<close>

definition vary_fields :: "response \<Rightarrow> string list" where
  "vary_fields r =
     (case header_get (resp_headers r) ''Vary'' of
        None \<Rightarrow> []
      | Some v \<Rightarrow> map trim (split_commas v))"

subsection \<open>Cache storage\<close>

text \<open>
  An insertion-ordered keyed collection: writing an existing key replaces its value in
  place, writing a new key appends.
\<close>

fun map_set :: "'k \<Rightarrow> 'v \<Rightarrow> ('k \<times> 'v) list \<Rightarrow> ('k \<times> 'v) list" where
  "map_set k v [] = [(k, v)]"
| "map_set k v ((k', v') # m) =
     (if k = k' then (k, v) # m else (k', v') # map_set k v m)"

definition map_has :: "'k \<Rightarrow> ('k \<times> 'v) list \<Rightarrow> bool" where
  "map_has k m = (map_of m k \<noteq> None)"

definition map_values :: "('k \<times> 'v) list \<Rightarrow> 'v list" where
  "map_values m = map snd m"

definition cache_of :: "sw_state \<Rightarrow> string \<Rightarrow> cache" where
  "cache_of st name = (case map_of (caches st) name of None \<Rightarrow> [] | Some c \<Rightarrow> c)"

text \<open>
  \<open>caches.open(name)\<close> creates the cache when it does not exist; \<open>with_cache\<close> is the
  state it leaves when it resolves.
\<close>

definition with_cache :: "string \<Rightarrow> sw_state \<Rightarrow> sw_state" where
  "with_cache name st =
     (if map_has name (caches st) then st
      else st\<lparr>caches := caches st @ [(name, [])]\<rparr>)"

definition caches_open :: "sw_env \<Rightarrow> string \<Rightarrow> sw_state \<Rightarrow> js_error + sw_state" where
  "caches_open env name st =
     (case open_fault env name of
        Some error \<Rightarrow> Inl error
      | None \<Rightarrow> Inr (with_cache name st))"

text \<open>A URL without its fragment.\<close>

definition strip_fragment :: "string \<Rightarrow> string" where
  "strip_fragment u = takeWhile (\<lambda>c. c \<noteq> CHR ''#'') u"

text \<open>
  Whether a stored pair answers a query, as the platform decides it with the default
  options: the stored request is a GET, the two URLs are equal up to their fragments,
  and for every field of the stored response's \<open>Vary\<close> header the field is not \<open>*\<close>
  and the two requests carry the same value for it.
\<close>

definition request_matches :: "request \<Rightarrow> request \<Rightarrow> response \<Rightarrow> bool" where
  "request_matches requestQuery cached response =
     (req_method cached = ''GET''
      \<and> strip_fragment (req_url requestQuery) = strip_fragment (req_url cached)
      \<and> list_all (\<lambda>field. field \<noteq> ''*''
                     \<and> header_get (req_headers cached) field
                         = header_get (req_headers requestQuery) field)
                  (vary_fields response))"

text \<open>
  What \<open>cache.match(request)\<close> on the cache called \<open>name\<close> resolves to: the response of
  the oldest stored pair that answers the request, \<open>None\<close> for \<open>undefined\<close>. A request
  that is not a GET is answered by nothing.
\<close>

definition cache_match :: "sw_state \<Rightarrow> string \<Rightarrow> request \<Rightarrow> response option" where
  "cache_match st name req =
     (if req_method req = ''GET''
      then map_option snd
             (find (\<lambda>entry. request_matches req (fst entry) (snd entry)) (cache_of st name))
      else None)"

definition await_cache_match ::
  "sw_env \<Rightarrow> sw_state \<Rightarrow> string \<Rightarrow> request \<Rightarrow> js_error + response option" where
  "await_cache_match env st name req =
     (case read_fault env name of
        Some error \<Rightarrow> Inl error
      | None \<Rightarrow> Inr (cache_match st name req))"

definition http_scheme :: "string \<Rightarrow> bool" where
  "http_scheme u = (prefix ''http://'' u \<or> prefix ''https://'' u)"

text \<open>
  \<open>cache.put(request, response)\<close> rejects with a \<open>TypeError\<close> a request that is not an
  http(s) GET, a response with status 206, and a response whose \<open>Vary\<close> header has the
  field \<open>*\<close>.
\<close>

definition put_rejects :: "request \<Rightarrow> response \<Rightarrow> js_error option" where
  "put_rejects req r =
     (if http_scheme (req_url req) \<and> req_method req = ''GET'' then
        (if resp_status r = 206
         then Some (JsError ''TypeError'' ''Partial response (status code 206) is unsupported'')
         else if list_ex (\<lambda>field. field = ''*'') (vary_fields r)
         then Some (JsError ''TypeError'' ''Vary header contains *'')
         else None)
      else Some (JsError ''TypeError'' ''Request scheme or method is unsupported''))"

text \<open>
  An accepted write removes the stored pairs that answer the request and appends the
  new pair.
\<close>

definition put_entry :: "string \<Rightarrow> request \<Rightarrow> response \<Rightarrow> sw_state \<Rightarrow> sw_state" where
  "put_entry name req r st =
     st\<lparr>caches :=
          map_set name
            (filter (\<lambda>entry. \<not> request_matches req (fst entry) (snd entry)) (cache_of st name)
             @ [(req, r)])
            (caches st)\<rparr>"

definition cache_put ::
  "sw_env \<Rightarrow> string \<Rightarrow> request \<Rightarrow> response \<Rightarrow> sw_state \<Rightarrow> js_error + sw_state" where
  "cache_put env name req r st =
     (case put_rejects req r of
        Some error \<Rightarrow> Inl error
      | None \<Rightarrow>
          (case put_fault env name of
             Some error \<Rightarrow> Inl error
           | None \<Rightarrow> Inr (put_entry name req r st)))"

definition caches_delete :: "string \<Rightarrow> sw_state \<Rightarrow> sw_state" where
  "caches_delete name st = st\<lparr>caches := filter (\<lambda>p. fst p \<noteq> name) (caches st)\<rparr>"

text \<open>\<open>fetch(request)\<close>: the call is logged, the environment gives its outcome.\<close>

definition fetch :: "sw_env \<Rightarrow> request \<Rightarrow> sw_state \<Rightarrow> (js_error + response) \<times> sw_state" where
  "fetch env req st = (net env req, st\<lparr>fetched := fetched st @ [req_url req]\<rparr>)"

section \<open>Service worker: fetch strategies\<close>

text \<open>
  A response built from a string body carries the content type of plain text unless the
  script names another.
\<close>

definition unavailable_resource :: response where
  "unavailable_resource =
     Response 503 ''Service Unavailable'' [(''content-type'', ''text/plain;charset=UTF-8'')]
       ''Offline - Resource not available''"

text \<open>
  The \<open>try\<close> block of \<open>cacheFirst\<close>: each awaited call can reject, and the first that
  does ends the block.
\<close>

definition cacheFirst_try ::
  "sw_env \<Rightarrow> request \<Rightarrow> string \<Rightarrow> sw_state \<Rightarrow> (js_error + jsval) \<times> sw_state" where
  "cacheFirst_try env req cacheName st =
     (case caches_open env cacheName st of
        Inl error \<Rightarrow> (Inl error, st)
      | Inr st1 \<Rightarrow>
          (case await_cache_match env st1 cacheName req of
             Inl error \<Rightarrow> (Inl error, st1)
           | Inr (Some cachedResponse) \<Rightarrow> (Inr (Resp cachedResponse), st1)
           | Inr None \<Rightarrow>
               (case fetch env req st1 of
                  (Inl error, st2) \<Rightarrow> (Inl error, st2)
                | (Inr networkResponse, st2) \<Rightarrow>
                    if ok networkResponse then
                      (case cache_put env cacheName req networkResponse st2 of
                         Inl error \<Rightarrow> (Inl error, st2)
                       | Inr st3 \<Rightarrow> (Inr (Resp networkResponse), st3))
                    else (Inr (Resp networkResponse), st2))))"

definition cacheFirst ::
  "sw_env \<Rightarrow> request \<Rightarrow> string \<Rightarrow> sw_state \<Rightarrow> (js_error + jsval) \<times> sw_state" where
  "cacheFirst env req cacheName st =
     (case cacheFirst_try env req cacheName st of
        (Inl error, st') \<Rightarrow> (Inr (Resp unavailable_resource), st')
      | (Inr v, st') \<Rightarrow> (Inr v, st'))"

text \<open>The \<open>try\<close> block of \<open>networkFirstWithCache\<close>.\<close>

definition networkFirstWithCache_try ::
  "sw_env \<Rightarrow> request \<Rightarrow> string \<Rightarrow> sw_state \<Rightarrow> (js_error + jsval) \<times> sw_state" where
  "networkFirstWithCache_try env req cacheName st =
     (case fetch env req st of
        (Inl error, st1) \<Rightarrow> (Inl error, st1)
      | (Inr networkResponse, st1) \<Rightarrow>
          if ok networkResponse then
            (case caches_open env cacheName st1 of
               Inl error \<Rightarrow> (Inl error, st1)
             | Inr st2 \<Rightarrow>
                 (case cache_put env cacheName req networkResponse st2 of
                    Inl error \<Rightarrow> (Inl error, st2)
                  | Inr st3 \<Rightarrow> (Inr (Resp networkResponse), st3)))
          else (Inr (Resp networkResponse), st1))"

text \<open>
  The \<open>catch\<close> block reads the cache; a rejection there leaves the function, and on a
  miss the error caught is thrown again.
\<close>

definition networkFirstWithCache ::
  "sw_env \<Rightarrow> request \<Rightarrow> string \<Rightarrow> sw_state \<Rightarrow> (js_error + jsval) \<times> sw_state" where
  "networkFirstWithCache env req cacheName st =
     (case networkFirstWithCache_try env req cacheName st of
        (Inr v, st') \<Rightarrow> (Inr v, st')
      | (Inl error, st1) \<Rightarrow>
          (case caches_open env cacheName st1 of
             Inl error' \<Rightarrow> (Inl error', st1)
           | Inr st2 \<Rightarrow>
               (case await_cache_match env st2 cacheName req of
                  Inl error' \<Rightarrow> (Inl error', st2)
                | Inr (Some cachedResponse) \<Rightarrow> (Inr (Resp cachedResponse), st2)
                | Inr None \<Rightarrow> (Inl error, st2))))"

text \<open>
  \<open>staleWhileRevalidate\<close>: opening and reading the cache are awaited outside any
  \<open>try\<close>. The fetch is issued whether or not the cache holds the key.
  \<open>fetchPromise\<close> is \<open>fetch(request).then(store and pass on).catch(log)\<close>: the
  \<open>put\<close> in it is not awaited, so its rejection changes nothing; the \<open>catch\<close> callback
  returns nothing, so after a rejected fetch the promise is fulfilled with
  \<open>undefined\<close>. The effects of the background fetch are part of the final state.
\<close>

definition staleWhileRevalidate ::
  "sw_env \<Rightarrow> request \<Rightarrow> string \<Rightarrow> sw_state \<Rightarrow> (js_error + jsval) \<times> sw_state" where
  "staleWhileRevalidate env req cacheName st =
     (case caches_open env cacheName st of
        Inl error \<Rightarrow> (Inl error, st)
      | Inr st1 \<Rightarrow>
          (case await_cache_match env st1 cacheName req of
             Inl error \<Rightarrow> (Inl error, st1)
           | Inr cachedResponse \<Rightarrow>
               (let (fetchPromise, st3) =
                      (case fetch env req st1 of
                         (Inr networkResponse, st2) \<Rightarrow>
                           (Resp networkResponse,
                            if ok networkResponse then
                              (case cache_put env cacheName req networkResponse st2 of
                                 Inl error \<Rightarrow> st2
                               | Inr st3 \<Rightarrow> st3)
                            else st2)
                       | (Inl error, st2) \<Rightarrow> (Undefined, st2))
                in case cachedResponse of
                     Some c \<Rightarrow> (Inr (Resp c), st3)
                   | None \<Rightarrow> (Inr fetchPromise, st3))))"

definition networkFirst ::
  "sw_env \<Rightarrow> request \<Rightarrow> sw_state \<Rightarrow> (js_error + jsval) \<times> sw_state" where
  "networkFirst env req st =
     (case fetch env req st of
        (Inr networkResponse, st1) \<Rightarrow> (Inr (Resp networkResponse), st1)
      | (Inl error, st1) \<Rightarrow> (Inl error, st1))"

section \<open>Service worker: dispatcher\<close>

text \<open>
  The body of the offline page is a fixed template literal; its markup is abbreviated
  to the document skeleton and the title.
\<close>

definition offline_page_body :: string where
  "offline_page_body =
     ''<!DOCTYPE html><html><head><title>ScanzoQR - Offline</title></head><body></body></html>''"

definition offline_page :: response where
  "offline_page = Response 200 [] [(''content-type'', ''text/html'')] offline_page_body"

definition offline_generic :: response where
  "offline_generic =
     Response 503 ''Service Unavailable'' [(''content-type'', ''text/plain;charset=UTF-8'')]
       ''Offline''"

text \<open>\<open>request.headers.get('Accept')?.includes('text/html')\<close>\<close>

definition accepts_html :: "request \<Rightarrow> bool" where
  "accepts_html req =
     (case header_get (req_headers req) ''Accept'' of
        None \<Rightarrow> False
      | Some a \<Rightarrow> str_includes a ''text/html'')"

definition handleFetchError :: "request \<Rightarrow> response" where
  "handleFetchError req = (if accepts_html req then offline_page else offline_generic)"

text \<open>
  The \<open>try\<close> block of \<open>handleFetch\<close>, with the asset manifest, the pattern list and
  \<open>self.location.origin\<close> as arguments; \<open>handleFetch\<close> below passes the script's
  constants.
\<close>

definition is_static_asset :: "string list \<Rightarrow> request \<Rightarrow> bool" where
  "is_static_asset assets req =
     list_ex (\<lambda>asset. str_includes (req_url req) (replace asset ''./'' [])) assets"

definition is_dynamic :: "string list \<Rightarrow> request \<Rightarrow> bool" where
  "is_dynamic patterns req = list_ex (\<lambda>pattern. pattern_test pattern (req_url req)) patterns"

definition handleFetch_try ::
  "string list \<Rightarrow> string list \<Rightarrow> string \<Rightarrow> sw_env \<Rightarrow> request \<Rightarrow> sw_state
     \<Rightarrow> (js_error + jsval) \<times> sw_state" where
  "handleFetch_try assets patterns self_origin env req st =
     (if is_static_asset assets req then cacheFirst env req STATIC_CACHE st
      else if is_dynamic patterns req then networkFirstWithCache env req DYNAMIC_CACHE st
      else if req_origin req = self_origin then staleWhileRevalidate env req STATIC_CACHE st
      else networkFirst env req st)"

definition handleFetch_with ::
  "string list \<Rightarrow> string list \<Rightarrow> string \<Rightarrow> sw_env \<Rightarrow> request \<Rightarrow> sw_state
     \<Rightarrow> (js_error + jsval) \<times> sw_state" where
  "handleFetch_with assets patterns self_origin env req st =
     (case handleFetch_try assets patterns self_origin env req st of
        (Inl error, st') \<Rightarrow> (Inr (Resp (handleFetchError req)), st')
      | (Inr v, st') \<Rightarrow> (Inr v, st'))"

definition handleFetch ::
  "string \<Rightarrow> sw_env \<Rightarrow> request \<Rightarrow> sw_state \<Rightarrow> (js_error + jsval) \<times> sw_state" where
  "handleFetch self_origin env req st =
     handleFetch_with STATIC_ASSETS DYNAMIC_PATTERNS self_origin env req st"

text \<open>
  The \<open>fetch\<close> listener: \<open>None\<close> when it returns without \<open>respondWith\<close> (the request
  goes to the network untouched), otherwise what \<open>handleFetch\<close> answers.
\<close>

definition fetch_listener ::
  "string \<Rightarrow> sw_env \<Rightarrow> request \<Rightarrow> sw_state
     \<Rightarrow> ((js_error + jsval) \<times> sw_state) option" where
  "fetch_listener self_origin env req st =
     (if req_method req \<noteq> ''GET'' then None
      else if prefix ''chrome-extension:'' (req_url req) then None
      else Some (handleFetch self_origin env req st))"

section \<open>Service worker: control channel\<close>

record msg_event =
  ev_type :: string
  ev_ports :: "nat list"

definition no_port_error :: js_error where
  "no_port_error = JsError ''TypeError'' ''Cannot read properties of undefined''"

text \<open>
  \<open>event.ports[0].postMessage(r)\<close>: with no port in the event, \<open>event.ports[0]\<close> is
  \<open>undefined\<close> and the property access throws.
\<close>

definition post_reply :: "msg_event \<Rightarrow> reply \<Rightarrow> sw_state \<Rightarrow> (js_error + unit) \<times> sw_state" where
  "post_reply ev r st =
     (case ev_ports ev of
        [] \<Rightarrow> (Inl no_port_error, st)
      | port # _ \<Rightarrow> (Inr (), st\<lparr>posted := posted st @ [(port, r)]\<rparr>))"

text \<open>
  The deletions handed to \<open>Promise.all\<close>: every one of them is started; the errors of
  those that reject are collected in list order.
\<close>

fun delete_all :: "sw_env \<Rightarrow> string list \<Rightarrow> sw_state \<Rightarrow> js_error list \<times> sw_state" where
  "delete_all env [] st = ([], st)"
| "delete_all env (name # names) st =
     (case delete_fault env name of
        None \<Rightarrow> delete_all env names (caches_delete name st)
      | Some error \<Rightarrow>
          (case delete_all env names st of (errors, st') \<Rightarrow> (error # errors, st')))"

definition clearAllCaches :: "sw_env \<Rightarrow> sw_state \<Rightarrow> (js_error + bool) \<times> sw_state" where
  "clearAllCaches env st =
     (case keys_fault env of
        Some error \<Rightarrow> (Inl error, st)
      | None \<Rightarrow>
          (case delete_all env (filter (prefix ''scanzo-'') (map fst (caches st))) st of
             ([], st') \<Rightarrow> (Inr True, st')
           | (error # _, st') \<Rightarrow> (Inl error, st')))"

text \<open>
  \<open>getCacheStatus\<close> opens and lists every cache of the application in turn, inside a
  \<open>try\<close> whose \<open>catch\<close> returns the empty object.
\<close>

definition getCacheStatus :: "sw_env \<Rightarrow> sw_state \<Rightarrow> (string \<times> nat \<times> string list) list" where
  "getCacheStatus env st =
     (case keys_fault env of
        Some error \<Rightarrow> []
      | None \<Rightarrow>
          (let names = filter (prefix ''scanzo-'') (map fst (caches st)) in
           if list_all (\<lambda>name. open_fault env name = None \<and> read_fault env name = None) names
           then map (\<lambda>name. (name, length (cache_of st name),
                              map (\<lambda>entry. req_url (fst entry)) (cache_of st name)))
                    names
           else []))"

text \<open>
  What leaves a promise chain that nobody handles: the error of the last step, if it
  threw.
\<close>

definition escaped :: "(js_error + unit) \<times> sw_state \<Rightarrow> js_error option \<times> sw_state" where
  "escaped r = (case r of (Inl error, st) \<Rightarrow> (Some error, st) | (Inr u, st) \<Rightarrow> (None, st))"

text \<open>
  The \<open>message\<close> listener. The first component of the result is the error that leaves
  the listener (thrown by it, or an unhandled rejection of a chain it started), if any.
  In \<open>clearAllCaches().then(f).catch(g)\<close>, \<open>g\<close> also handles an exception of \<open>f\<close>.
\<close>

definition on_message :: "sw_env \<Rightarrow> msg_event \<Rightarrow> sw_state \<Rightarrow> js_error option \<times> sw_state" where
  "on_message env ev st =
     (if ev_type ev = ''SKIP_WAITING'' then
        (None, st\<lparr>skipWaiting_calls := skipWaiting_calls st + 1\<rparr>)
      else if ev_type ev = ''GET_VERSION'' then
        escaped (post_reply ev (VERSION_RESPONSE CACHE_NAME) st)
      else if ev_type ev = ''CLEAR_CACHE'' then
        (case clearAllCaches env st of
           (Inr b, st1) \<Rightarrow>
             (case post_reply ev (CACHE_CLEARED True None) st1 of
                (Inr u, st2) \<Rightarrow> (None, st2)
              | (Inl error, st2) \<Rightarrow>
                  escaped (post_reply ev (CACHE_CLEARED False (Some (err_message error))) st2))
         | (Inl error, st1) \<Rightarrow>
             escaped (post_reply ev (CACHE_CLEARED False (Some (err_message error))) st1))
      else if ev_type ev = ''CACHE_STATUS'' then
        escaped (post_reply ev (CACHE_STATUS_RESPONSE (getCacheStatus env st)) st)
      else (None, st))"

section \<open>Service worker: activation\<close>

text \<open>
  The \<open>activate\<close> handler starts one \<open>caches.delete\<close> per obsolete cache name, all at
  once, and the deletions settle in any order; so the handler is a step relation. A state
  holds the caches, the names whose deletion has been started and has not settled, and
  the point the handler has reached: before \<open>caches.keys()\<close> answers, suspended in
  \<open>await Promise.all(deletePromises)\<close>, past the call of \<open>self.clients.claim()\<close>, or in
  the \<open>catch\<close> block.
\<close>

datatype act_phase = Start | AwaitingDeletes | Claimed | Caught

record act_state =
  act_caches :: "(string \<times> cache) list"
  act_pending :: "string list"
  act_phase :: act_phase

definition obsolete :: "string \<Rightarrow> bool" where
  "obsolete name =
     (prefix ''scanzo-'' name \<and> name \<noteq> STATIC_CACHE \<and> name \<noteq> DYNAMIC_CACHE)"

inductive activate_step :: "sw_env \<Rightarrow> act_state \<Rightarrow> act_state \<Rightarrow> bool" for env where
  keys_rejects:
    "act_phase s = Start \<Longrightarrow> keys_fault env = Some error \<Longrightarrow>
     activate_step env s (s\<lparr>act_phase := Caught\<rparr>)"
| deletes_started:
    "act_phase s = Start \<Longrightarrow> keys_fault env = None \<Longrightarrow>
     activate_step env s
       (s\<lparr>act_pending := filter obsolete (map fst (act_caches s)),
          act_phase := AwaitingDeletes\<rparr>)"
| delete_resolves:
    "name \<in> set (act_pending s) \<Longrightarrow> delete_fault env name = None \<Longrightarrow>
     activate_step env s
       (s\<lparr>act_caches := filter (\<lambda>p. fst p \<noteq> name) (act_caches s),
          act_pending := removeAll name (act_pending s)\<rparr>)"
| delete_rejects:
    "name \<in> set (act_pending s) \<Longrightarrow> delete_fault env name = Some error \<Longrightarrow>
     activate_step env s
       (s\<lparr>act_pending := removeAll name (act_pending s),
          act_phase := (if act_phase s = AwaitingDeletes then Caught else act_phase s)\<rparr>)"
| claim:
    "act_phase s = AwaitingDeletes \<Longrightarrow> act_pending s = [] \<Longrightarrow>
     activate_step env s (s\<lparr>act_phase := Claimed\<rparr>)"

text \<open>The handler starts with no deletion in flight.\<close>

definition activate_init :: "(string \<times> cache) list \<Rightarrow> act_state" where
  "activate_init cs = \<lparr>act_caches = cs, act_pending = [], act_phase = Start\<rparr>"

section \<open>History storage\<close>

text \<open>
  A history record. \<open>content\<close> and \<open>qrData\<close> are \<open>None\<close> when the property is
  \<open>undefined\<close> or missing (\<open>JSON.stringify\<close> drops an \<open>undefined\<close> property, so the two
  are the same once stored). The timestamp is the time value of
  \<open>new Date(item.timestamp)\<close>, in milliseconds.
\<close>

record hist_item =
  item_id :: int
  item_type :: string
  item_mode :: string
  item_contentType :: string
  item_content :: "string option"
  item_qrData :: "string option"
  item_timestamp :: int
  item_preview :: string
  item_size :: nat

text \<open>
  The storage manager and its two backends: the parsed value under the key
  \<open>qrHistory\<close> of \<open>localStorage\<close> (\<open>None\<close> when the key is not set), the flag
  \<open>isIndexedDBAvailable\<close>, and \<open>this.db\<close> (\<open>None\<close> for \<open>null\<close>, otherwise the
  records of the object store, as \<open>getAll\<close> lists them).
\<close>

record storage =
  localStorage :: "hist_item list option"
  isIndexedDBAvailable :: bool
  db :: "hist_item list option"

text \<open>
  \<open>setItem\<close>: the exception \<open>localStorage.setItem\<close> throws for a value, if any, is
  given by the environment.
\<close>

type_synonym setItem_fault = "hist_item list \<Rightarrow> js_error option"

text \<open>Truthiness of a string-valued property: \<open>undefined\<close> and \<open>''\<close> are falsy.\<close>

definition truthy :: "string option \<Rightarrow> bool" where
  "truthy v = (case v of None \<Rightarrow> False | Some s \<Rightarrow> s \<noteq> [])"

definition dataToStore :: "hist_item list \<Rightarrow> hist_item list" where
  "dataToStore historyArray =
     map (\<lambda>item. item\<lparr>item_qrData :=
                        (if truthy (item_qrData item) then Some ''stored_in_indexeddb''
                         else None)\<rparr>)
         historyArray"

definition minimalData :: "hist_item list \<Rightarrow> hist_item list" where
  "minimalData historyArray =
     map (\<lambda>item. \<lparr>item_id = item_id item, item_type = item_type item,
                   item_mode = item_mode item, item_contentType = item_contentType item,
                   item_content = None, item_qrData = None,
                   item_timestamp = item_timestamp item, item_preview = item_preview item,
                   item_size = item_size item\<rparr>)
         historyArray"

definition saveToLocalStorage ::
  "setItem_fault \<Rightarrow> hist_item list \<Rightarrow> storage \<Rightarrow> (js_error + bool) \<times> storage" where
  "saveToLocalStorage setItem historyArray st =
     (case setItem (dataToStore historyArray) of
        None \<Rightarrow> (Inr True, st\<lparr>localStorage := Some (dataToStore historyArray)\<rparr>)
      | Some error \<Rightarrow>
          if err_name error = ''QuotaExceededError'' then
            (case setItem (minimalData historyArray) of
               None \<Rightarrow> (Inr True, st\<lparr>localStorage := Some (minimalData historyArray)\<rparr>)
             | Some error' \<Rightarrow> (Inl error', st))
          else (Inl error, st))"

text \<open>
  \<open>saveToIndexedDB\<close>: one transaction clears the object store and adds every record
  under its \<open>id\<close>. Adding a key twice fails the transaction, which then leaves the store
  as it was. \<open>getAll\<close> lists the records by ascending key.
\<close>

definition saveToIndexedDB ::
  "hist_item list \<Rightarrow> storage \<Rightarrow> (js_error + bool) \<times> storage" where
  "saveToIndexedDB historyArray st =
     (case db st of
        None \<Rightarrow> (Inr False, st)
      | Some old \<Rightarrow>
          if distinct (map item_id historyArray)
          then (Inr True, st\<lparr>db := Some (sort_key item_id historyArray)\<rparr>)
          else (Inl (JsError ''ConstraintError'' ''Key already exists in the object store''), st))"

text \<open>
  \<open>saveHistory\<close> waits for both writes with \<open>Promise.allSettled\<close>, which never
  rejects, and returns \<open>true\<close> whatever they did.
\<close>

definition saveHistory :: "setItem_fault \<Rightarrow> hist_item list \<Rightarrow> storage \<Rightarrow> bool \<times> storage" where
  "saveHistory setItem historyArray st =
     (let st1 = snd (saveToLocalStorage setItem historyArray st);
          st2 = (if isIndexedDBAvailable st1 \<and> db st1 \<noteq> None
                 then snd (saveToIndexedDB historyArray st1) else st1)
      in (True, st2))"

definition loadFromLocalStorage :: "storage \<Rightarrow> hist_item list" where
  "loadFromLocalStorage st = (case localStorage st of None \<Rightarrow> [] | Some stored \<Rightarrow> stored)"

definition loadFromIndexedDB :: "storage \<Rightarrow> hist_item list" where
  "loadFromIndexedDB st = (case db st of None \<Rightarrow> [] | Some records \<Rightarrow> records)"

text \<open>
  \<open>mergeHistoryData\<close>: a \<open>Map\<close> keyed by \<open>id\<close> receives every record of the larger
  backend, then every record of the fast backend whose \<open>id\<close> it does not hold yet.
\<close>

definition merge_seed :: "(int \<times> hist_item) list \<Rightarrow> hist_item list \<Rightarrow> (int \<times> hist_item) list" where
  "merge_seed merged indexedData =
     foldl (\<lambda>m item. map_set (item_id item) item m) merged indexedData"

definition merge_fill :: "(int \<times> hist_item) list \<Rightarrow> hist_item list \<Rightarrow> (int \<times> hist_item) list" where
  "merge_fill merged localData =
     foldl (\<lambda>m item. if \<not> map_has (item_id item) m then map_set (item_id item) item m else m)
           merged localData"

definition mergeHistoryData :: "hist_item list \<Rightarrow> hist_item list \<Rightarrow> hist_item list" where
  "mergeHistoryData localData indexedData =
     map_values (merge_fill (merge_seed [] indexedData) localData)"

text \<open>
  \<open>.sort((a, b) => new Date(b.timestamp) - new Date(a.timestamp))\<close>: a stable sort,
  latest first.
\<close>

definition sort_latest_first :: "hist_item list \<Rightarrow> hist_item list" where
  "sort_latest_first xs = sort_key (\<lambda>item. - item_timestamp item) xs"

definition loadHistory :: "storage \<Rightarrow> hist_item list" where
  "loadHistory st =
     (let localData = loadFromLocalStorage st in
      if isIndexedDBAvailable st \<and> db st \<noteq> None
      then sort_latest_first (mergeHistoryData localData (loadFromIndexedDB st))
      else sort_latest_first localData)"

section \<open>Example inputs\<close>

definition empty_state :: sw_state where
  "empty_state = \<lparr>caches = [], fetched = [], posted = [], skipWaiting_calls = 0\<rparr>"

definition font_response :: response where
  "font_response = Response 200 ''OK'' [(''content-type'', ''font/woff2'')] ''wOF2''"

text \<open>A platform whose storage calls all succeed, answering fetches as given.\<close>

definition quiet :: "(request \<Rightarrow> js_error + response) \<Rightarrow> sw_env" where
  "quiet answer =
     \<lparr>net = answer, keys_fault = None, delete_fault = (\<lambda>name. None),
      open_fault = (\<lambda>name. None), read_fault = (\<lambda>name. None), put_fault = (\<lambda>name. None)\<rparr>"

definition online_env :: sw_env where
  "online_env = quiet (\<lambda>req. Inr font_response)"

definition fetch_failed :: js_error where
  "fetch_failed = JsError ''TypeError'' ''Failed to fetch''"

definition offline_env :: sw_env where
  "offline_env = quiet (\<lambda>req. Inl fetch_failed)"

definition font_request :: request where
  "font_request =
     \<lparr>req_url = ''https://fonts.gstatic.com/s/inter/v12/inter.woff2'', req_method = ''GET'',
      req_headers = [(''accept'', ''*/*'')], req_origin = ''https://fonts.gstatic.com''\<rparr>"

definition page_request :: request where
  "page_request =
     \<lparr>req_url = ''https://scanzo.app/history'', req_method = ''GET'',
      req_headers = [(''accept'', ''text/html,application/xhtml+xml'')],
      req_origin = ''https://scanzo.app''\<rparr>"





definition fast_1 :: hist_item where
  "fast_1 = \<lparr>item_id = 1, item_type = ''generated'', item_mode = ''public'',
              item_contentType = ''text'', item_content = Some ''alpha'',
              item_qrData = Some ''stored_in_indexeddb'', item_timestamp = 1000,
              item_preview = ''alpha'', item_size = 5\<rparr>"

definition fast_2 :: hist_item where
  "fast_2 = \<lparr>item_id = 2, item_type = ''generated'', item_mode = ''public'',
              item_contentType = ''text'', item_content = Some ''beta'',
              item_qrData = Some ''stored_in_indexeddb'', item_timestamp = 2000,
              item_preview = ''beta'', item_size = 4\<rparr>"

definition larger_2 :: hist_item where
  "larger_2 = \<lparr>item_id = 2, item_type = ''generated'', item_mode = ''public'',
                item_contentType = ''text'', item_content = Some ''beta'',
                item_qrData = Some ''data:image/png;base64,QkI='', item_timestamp = 2000,
                item_preview = ''beta'', item_size = 4\<rparr>"

definition larger_3 :: hist_item where
  "larger_3 = \<lparr>item_id = 3, item_type = ''scanned'', item_mode = ''public'',
                item_contentType = ''text'', item_content = Some ''gamma'',
                item_qrData = None, item_timestamp = 3000,
                item_preview = ''gamma'', item_size = 5\<rparr>"

definition app_origin :: string where
  "app_origin = ''https://scanzo.app''"




text \<open>The manifest without its first entry, the application root \<open>./\<close>.\<close>

definition assets_without_root :: "string list" where
  "assets_without_root = remove1 ''./'' STATIC_ASSETS"

definition fragment_request :: request where
  "fragment_request =
     \<lparr>req_url = ''https://cdn.jsdelivr.net/gh/scanzo/docs/help.htm'', req_method = ''GET'',
      req_headers = [(''accept'', ''text/html'')], req_origin = ''https://cdn.jsdelivr.net''\<rparr>"

definition old_static :: string where
  "old_static = ''scanzo-static-v2.0.0''"

definition stale_state :: sw_state where
  "stale_state = empty_state\<lparr>caches := [(old_static, []), (STATIC_CACHE, [])]\<rparr>"

definition insecure :: js_error where
  "insecure = JsError ''SecurityError'' ''The operation is insecure''"

definition locked_env :: sw_env where
  "locked_env =
     (quiet (\<lambda>req. Inl fetch_failed))
       \<lparr>delete_fault := (\<lambda>name. if name = old_static then Some insecure else None)\<rparr>"


definition clear_event :: msg_event where
  "clear_event = \<lparr>ev_type = ''CLEAR_CACHE'', ev_ports = [4]\<rparr>"

definition stale_caches :: "(string \<times> cache) list" where
  "stale_caches = [(old_static, []), (STATIC_CACHE, []), (DYNAMIC_CACHE, [])]"

definition claimed_state :: act_state where
  "claimed_state = \<lparr>act_caches = [(STATIC_CACHE, []), (DYNAMIC_CACHE, [])], act_pending = [],
                     act_phase = Claimed\<rparr>"

definition quota_exceeded :: js_error where
  "quota_exceeded = JsError ''QuotaExceededError'' ''The quota has been exceeded''"

text \<open>
  A fast backend with a budget of characters: a write is refused with
  \<open>QuotaExceededError\<close> when the content, image and preview strings of the records
  together are longer than the budget.
\<close>

definition item_chars :: "hist_item \<Rightarrow> nat" where
  "item_chars item =
     length (case item_content item of None \<Rightarrow> [] | Some c \<Rightarrow> c)
     + length (case item_qrData item of None \<Rightarrow> [] | Some d \<Rightarrow> d)
     + length (item_preview item)"

definition quota_setItem :: "nat \<Rightarrow> setItem_fault" where
  "quota_setItem capacity items =
     (if capacity < sum_list (map item_chars items) then Some quota_exceeded else None)"

definition accept_all :: setItem_fault where
  "accept_all items = None"

definition full_item :: hist_item where
  "full_item = \<lparr>item_id = 7, item_type = ''generated'', item_mode = ''public'',
                 item_contentType = ''text'', item_content = Some ''hello world'',
                 item_qrData = Some ''data:image/png;base64,iVBORw0KGgo='',
                 item_timestamp = 5000, item_preview = ''hello world'', item_size = 11\<rparr>"

definition fresh_storage :: storage where
  "fresh_storage = \<lparr>localStorage = None, isIndexedDBAvailable = False, db = None\<rparr>"

section \<open>Predicates used in the statements\<close>

text \<open>
  The invariant of the activation handler: nothing is in flight before the deletions
  are started and once control is claimed, and while the handler waits for the
  deletions, and after it has claimed, every obsolete cache that still exists has its
  deletion in flight.
\<close>

definition phase_ok :: "act_state \<Rightarrow> bool" where
  "phase_ok s =
     ((act_phase s = Start \<or> act_phase s = Claimed \<longrightarrow> act_pending s = [])
      \<and> (act_phase s = AwaitingDeletes \<or> act_phase s = Claimed \<longrightarrow>
           (\<forall>name \<in> set (map fst (act_caches s)).
               obsolete name \<longrightarrow> name \<in> set (act_pending s))))"

text \<open>
  \<open>r'\<close> is the reduced projection of \<open>r\<close>: identifier, kind, mode, content type,
  preview, timestamp and size are those of \<open>r\<close>; raw content and rendered image are
  absent.
\<close>

definition projection_of :: "hist_item \<Rightarrow> hist_item \<Rightarrow> bool" where
  "projection_of r' r =
     (item_id r' = item_id r \<and> item_type r' = item_type r \<and> item_mode r' = item_mode r
      \<and> item_contentType r' = item_contentType r \<and> item_preview r' = item_preview r
      \<and> item_timestamp r' = item_timestamp r \<and> item_size r' = item_size r
      \<and> item_content r' = None \<and> item_qrData r' = None)"

definition sentinel_or_absent :: "hist_item \<Rightarrow> bool" where
  "sentinel_or_absent r =
     (item_qrData r = None \<or> item_qrData r = Some ''stored_in_indexeddb'')"

section \<open>Keyed collections and the merge\<close>

lemma in_keys: "(k, v) \<in> set m \<Longrightarrow> k \<in> fst ` set m"
  by force

lemma map_set_fst:
  "map fst (map_set k v m) = (if k \<in> set (map fst m) then map fst m else map fst m @ [k])"
  by (induction m) (auto dest: in_keys)

lemma map_set_keys: "fst ` set (map_set k v m) = insert k (fst ` set m)"
proof -
  have "set (map fst (map_set k v m)) = insert k (set (map fst m))"
    by (auto simp: map_set_fst)
  then show ?thesis by simp
qed

lemma map_set_distinct: "distinct (map fst m) \<Longrightarrow> distinct (map fst (map_set k v m))"
  by (simp add: map_set_fst)

lemma map_set_entries: "p \<in> set (map_set k v m) \<Longrightarrow> p = (k, v) \<or> p \<in> set m"
  by (induction m) (auto split: if_splits)


lemma map_has_keys: "map_has k m \<longleftrightarrow> k \<in> fst ` set m"
  by (simp add: map_has_def map_of_eq_None_iff)

lemma merge_seed_keys: "fst ` set (merge_seed m xs) = fst ` set m \<union> item_id ` set xs"
  unfolding merge_seed_def by (induction xs arbitrary: m) (auto simp: map_set_keys)

lemma merge_fill_keys: "fst ` set (merge_fill m xs) = fst ` set m \<union> item_id ` set xs"
  unfolding merge_fill_def
  by (induction xs arbitrary: m) (auto simp: map_set_keys map_has_keys)

lemma merge_seed_distinct: "distinct (map fst m) \<Longrightarrow> distinct (map fst (merge_seed m xs))"
  unfolding merge_seed_def by (induction xs arbitrary: m) (auto simp: map_set_distinct)

lemma merge_fill_distinct: "distinct (map fst m) \<Longrightarrow> distinct (map fst (merge_fill m xs))"
  unfolding merge_fill_def by (induction xs arbitrary: m) (auto simp: map_set_distinct)

text \<open>Seeding keeps the old entries or files a record of the list under its own id.\<close>

lemma merge_seed_entries:
  "(k, v) \<in> set (merge_seed m xs) \<Longrightarrow> (k, v) \<in> set m \<or> (v \<in> set xs \<and> item_id v = k)"
  unfolding merge_seed_def
proof (induction xs arbitrary: m)
  case Nil
  then show ?case by simp
next
  case (Cons x xs)
  from Cons.IH [of "map_set (item_id x) x m"] Cons.prems
  have "(k, v) \<in> set (map_set (item_id x) x m) \<or> (v \<in> set xs \<and> item_id v = k)" by simp
  with map_set_entries [of "(k, v)" "item_id x" x m] show ?case by auto
qed

text \<open>Filling never touches a key that is already held.\<close>

lemma merge_fill_entries:
  "(k, v) \<in> set (merge_fill m xs) \<Longrightarrow>
     (k, v) \<in> set m \<or> (k \<notin> fst ` set m \<and> v \<in> set xs \<and> item_id v = k)"
  unfolding merge_fill_def
proof (induction xs arbitrary: m)
  case Nil
  then show ?case by simp
next
  case (Cons x xs)
  show ?case
  proof (cases "map_has (item_id x) m")
    case True
    with Cons.IH [of m] Cons.prems show ?thesis by auto
  next
    case False
    with Cons.IH [of "map_set (item_id x) x m"] Cons.prems
    have "(k, v) \<in> set (map_set (item_id x) x m) \<or>
          (k \<notin> fst ` set (map_set (item_id x) x m) \<and> v \<in> set xs \<and> item_id v = k)"
      by simp
    with map_set_entries [of "(k, v)" "item_id x" x m] False show ?thesis
      by (auto simp: map_set_keys map_has_keys dest: in_keys)
  qed
qed

lemma merge_keyed: "\<forall>(k, v) \<in> set (merge_fill (merge_seed [] i) l). item_id v = k"
  using merge_fill_entries merge_seed_entries by fastforce

lemma merge_ids_list:
  "map item_id (mergeHistoryData l i) = map fst (merge_fill (merge_seed [] i) l)"
  using merge_keyed [of i l] by (auto simp: mergeHistoryData_def map_values_def)

lemma merge_ids: "set (map item_id (mergeHistoryData l i)) = item_id ` set l \<union> item_id ` set i"
  by (auto simp: merge_ids_list merge_fill_keys merge_seed_keys)

lemma merge_distinct: "distinct (map item_id (mergeHistoryData l i))"
  by (simp add: merge_ids_list merge_fill_distinct merge_seed_distinct)

lemma merge_origin:
  assumes "r \<in> set (mergeHistoryData l i)"
  shows "if item_id r \<in> item_id ` set i then r \<in> set i else r \<in> set l"
proof -
  from assms obtain k where kr: "(k, r) \<in> set (merge_fill (merge_seed [] i) l)"
    by (auto simp: mergeHistoryData_def map_values_def)
  with merge_keyed [of i l] have k: "item_id r = k" by auto
  from merge_fill_entries [OF kr]
  consider "(k, r) \<in> set (merge_seed [] i)" | "k \<notin> fst ` set (merge_seed [] i)" "r \<in> set l"
    by auto
  then show ?thesis
  proof cases
    case 1
    with merge_seed_entries [of k r "[]" i] have "r \<in> set i" by simp
    then show ?thesis by auto
  next
    case 2
    then show ?thesis using k by (simp add: merge_seed_keys)
  qed
qed

lemma sort_latest_first_sorted:
  "sorted_wrt (\<lambda>a b. item_timestamp b \<le> item_timestamp a) (sort_latest_first xs)"
proof -
  have "sorted (map (\<lambda>item. - item_timestamp item) (sort_latest_first xs))"
    by (simp add: sort_latest_first_def)
  then show ?thesis by (simp add: sorted_map)
qed

lemma sort_latest_first_set: "set (sort_latest_first xs) = set xs"
  by (simp add: sort_latest_first_def)

lemma sort_latest_first_distinct:
  "distinct (map item_id (sort_latest_first xs)) = distinct (map item_id xs)"
  by (simp add: sort_latest_first_def distinct_map)

section \<open>Cache storage: basic facts\<close>



lemma cache_of_with_cache [simp]: "cache_of (with_cache name st) name = cache_of st name"
proof (cases "map_has name (caches st)")
  case True
  then show ?thesis by (simp add: with_cache_def)
next
  case False
  then have "map_of (caches st) name = None" by (simp add: map_has_def)
  then show ?thesis
    by (simp add: with_cache_def cache_of_def map_has_def map_add_def)
qed

lemma cache_match_with_cache [simp]:
  "cache_match (with_cache name st) name req = cache_match st name req"
  by (simp add: cache_match_def)

lemma fetched_with_cache [simp]: "fetched (with_cache name st) = fetched st"
  by (simp add: with_cache_def)

lemma cache_match_fetched [simp]:
  "cache_match (st\<lparr>fetched := f\<rparr>) name req = cache_match st name req"
  by (simp add: cache_match_def cache_of_def)

lemma fetched_put_entry [simp]: "fetched (put_entry name req r st) = fetched st"
  by (simp add: put_entry_def)





section \<open>Dispatch\<close>

text \<open>
  The first manifest entry is \<open>./\<close>. Removing \<open>./\<close> from it leaves the empty string,
  and every string includes the empty string: the static-asset test holds for every
  request.
\<close>

lemma root_asset_matches_all: "is_static_asset STATIC_ASSETS req"
proof -
  have "str_includes u []" for u by (cases u) simp_all
  then show ?thesis by (simp add: is_static_asset_def STATIC_ASSETS_def)
qed

lemma handleFetch_always_cacheFirst:
  "handleFetch self_origin env req st = cacheFirst env req STATIC_CACHE st"
  by (simp add: handleFetch_def handleFetch_with_def handleFetch_try_def root_asset_matches_all
      cacheFirst_def split: prod.splits sum.splits)

text \<open>
  Claim C1 says that a GET request whose URL matches a dynamic-origin pattern and is
  not an entry of the asset manifest is served network-first against the dynamic store.
  The dispatcher does not do that. The font request below matches the first pattern and
  is no manifest entry, yet \<open>handleFetch\<close> serves it with \<open>cacheFirst\<close> against the
  static store: the copy of the network response lands in the static cache. What the
  network-first strategy would have done with the same request is the last equation
  but one.
\<close>

theorem handleFetch_dynamic_origin_served_cache_first:
  "is_dynamic DYNAMIC_PATTERNS font_request
   \<and> req_url font_request \<notin> set STATIC_ASSETS
   \<and> handleFetch app_origin online_env font_request empty_state
       = cacheFirst online_env font_request STATIC_CACHE empty_state
   \<and> handleFetch app_origin online_env font_request empty_state
       = (Inr (Resp font_response),
          empty_state\<lparr>caches := [(STATIC_CACHE, [(font_request, font_response)])],
                      fetched := [req_url font_request]\<rparr>)
   \<and> networkFirstWithCache online_env font_request DYNAMIC_CACHE empty_state
       = (Inr (Resp font_response),
          empty_state\<lparr>caches := [(DYNAMIC_CACHE, [(font_request, font_response)])],
                      fetched := [req_url font_request]\<rparr>)
   \<and> STATIC_CACHE \<noteq> DYNAMIC_CACHE"
  by code_simp

section \<open>Cache first\<close>





section \<open>Stale while revalidate\<close>

text \<open>Once the store is opened and read, \<open>staleWhileRevalidate\<close> throws nothing.\<close>

lemma staleWhileRevalidate_never_throws:
  "open_fault env cacheName = None \<Longrightarrow> read_fault env cacheName = None \<Longrightarrow>
   \<exists>v. fst (staleWhileRevalidate env req cacheName st) = Inr v"
  by (simp add: staleWhileRevalidate_def caches_open_def await_cache_match_def Let_def
      split: prod.splits sum.splits option.splits)

text \<open>With nothing stored and the network answering, the answer is the result.\<close>

lemma staleWhileRevalidate_miss_online:
  "open_fault env cacheName = None \<Longrightarrow> read_fault env cacheName = None \<Longrightarrow>
   cache_match st cacheName req = None \<Longrightarrow> net env req = Inr networkResponse \<Longrightarrow>
   fst (staleWhileRevalidate env req cacheName st) = Inr (Resp networkResponse)"
  by (simp add: staleWhileRevalidate_def caches_open_def await_cache_match_def Let_def
      fetch_def)

text \<open>
  Claim C3 says that with no stored value the caller gets the result of the background
  fetch, and that a failure of that fetch is propagated. The second half fails: for a
  same-origin page request, with an empty store and the network down,
  \<open>staleWhileRevalidate\<close> returns \<open>undefined\<close> as a normal result. The sibling
  strategy \<open>networkFirst\<close> passes the same failure on.
\<close>

theorem staleWhileRevalidate_failure_gives_undefined:
  "cache_match empty_state STATIC_CACHE page_request = None
   \<and> net offline_env page_request = Inl fetch_failed
   \<and> staleWhileRevalidate offline_env page_request STATIC_CACHE empty_state
       = (Inr Undefined,
          empty_state\<lparr>caches := [(STATIC_CACHE, [])], fetched := [req_url page_request]\<rparr>)
   \<and> networkFirst offline_env page_request empty_state
       = (Inl fetch_failed, empty_state\<lparr>fetched := [req_url page_request]\<rparr>)"
  by code_simp

section \<open>Fallback responses\<close>

text \<open>
  The \<open>catch\<close> of the dispatcher answers a strategy that throws with
  \<open>handleFetchError\<close>: the offline page when the Accept header includes
  \<open>text/html\<close>, the generic 503 otherwise.
\<close>

lemma handleFetch_with_catch:
  "handleFetch_try assets patterns self_origin env req st = (Inl error, st') \<Longrightarrow>
   handleFetch_with assets patterns self_origin env req st
     = (Inr (Resp (if accepts_html req then offline_page else offline_generic)), st')"
  by (simp add: handleFetch_with_def handleFetchError_def)

text \<open>
  With a manifest that lacks the root entry the \<open>catch\<close> is reached: a request for an
  HTML fragment on a CDN goes network-first with cache fallback, fails on an empty store
  while the network is down, and is answered with the offline page.
\<close>

lemma fallback_without_root_entry:
  "handleFetch_with assets_without_root DYNAMIC_PATTERNS app_origin offline_env
     fragment_request empty_state
   = (Inr (Resp offline_page),
      empty_state\<lparr>caches := [(DYNAMIC_CACHE, [])], fetched := [req_url fragment_request]\<rparr>)"
  by code_simp

text \<open>
  With the script's own manifest the \<open>try\<close> block always runs \<open>cacheFirst\<close>,
  which catches whatever is thrown in it: the \<open>catch\<close> of the dispatcher is never
  entered.
\<close>

lemma handleFetch_try_script_never_throws:
  "\<exists>v. fst (handleFetch_try STATIC_ASSETS patterns self_origin env req st) = Inr v"
  by (simp add: handleFetch_try_def root_asset_matches_all cacheFirst_def
      split: prod.splits sum.splits)


section \<open>Control channel\<close>

lemma posted_caches_delete [simp]: "posted (caches_delete name st) = posted st"
  by (simp add: caches_delete_def)

lemma posted_delete_all: "posted (snd (delete_all env names st)) = posted st"
proof (induction names arbitrary: st)
  case Nil
  then show ?case by simp
next
  case (Cons name names)
  show ?case
  proof (cases "delete_fault env name")
    case None
    with Cons.IH [of "caches_delete name st"] show ?thesis by simp
  next
    case (Some error)
    with Cons.IH [of st] show ?thesis by (cases "delete_all env names st") simp
  qed
qed

lemma posted_clearAllCaches: "posted (snd (clearAllCaches env st)) = posted st"
  using posted_delete_all [of env "filter (prefix ''scanzo-'') (map fst (caches st))" st]
  by (auto simp: clearAllCaches_def split: option.splits prod.splits list.splits)

text \<open>
  Claim C8. For a \<open>CLEAR_CACHE\<close> message that carries a reply port, no error leaves the
  listener and exactly one message is posted, to that port: \<open>CACHE_CLEARED\<close> with
  success true when \<open>clearAllCaches\<close> resolves, and \<open>CACHE_CLEARED\<close> with success false
  and the error's message when it rejects.
\<close>

theorem clear_cache_replies_exactly_once:
  "ev_type ev = ''CLEAR_CACHE'' \<Longrightarrow> ev_ports ev = port # ports \<Longrightarrow>
   fst (on_message env ev st) = None
   \<and> (case fst (clearAllCaches env st) of
        Inr done \<Rightarrow>
          posted (snd (on_message env ev st)) = posted st @ [(port, CACHE_CLEARED True None)]
      | Inl error \<Rightarrow>
          posted (snd (on_message env ev st))
            = posted st @ [(port, CACHE_CLEARED False (Some (err_message error)))])"
proof -
  assume ty: "ev_type ev = ''CLEAR_CACHE''" and po: "ev_ports ev = port # ports"
  obtain r st1 where c: "clearAllCaches env st = (r, st1)" by (cases "clearAllCaches env st")
  with posted_clearAllCaches [of env st] have p: "posted st1 = posted st" by simp
  show ?thesis
  proof (cases r)
    case (Inl error)
    with ty po c p show ?thesis
      by (simp add: on_message_def post_reply_def escaped_def)
  next
    case (Inr b)
    with ty po c p show ?thesis
      by (simp add: on_message_def post_reply_def escaped_def)
  qed
qed

text \<open>
  Claim C8 at concrete inputs: one old and one current cache; the deletions succeed in
  the first environment, and the deletion of the old cache is refused in the second.
\<close>

theorem clear_cache_replies_exactly_once_witness:
  "ev_type clear_event = ''CLEAR_CACHE'' \<and> ev_ports clear_event = [4]
   \<and> fst (clearAllCaches online_env stale_state) = Inr True
   \<and> on_message online_env clear_event stale_state
       = (None, empty_state\<lparr>posted := [(4, CACHE_CLEARED True None)]\<rparr>)
   \<and> fst (clearAllCaches locked_env stale_state) = Inl insecure
   \<and> on_message locked_env clear_event stale_state
       = (None, stale_state\<lparr>caches := [(old_static, [])],
                              posted := [(4, CACHE_CLEARED False (Some ''The operation is insecure''))]\<rparr>)"
proof -
  have e: "ev_type clear_event = ''CLEAR_CACHE''" "ev_ports clear_event = [4]"
    by (simp_all add: clear_event_def)
  have ok: "clearAllCaches online_env stale_state = (Inr True, empty_state)"
    by code_simp
  have ko: "clearAllCaches locked_env stale_state
              = (Inl insecure, stale_state\<lparr>caches := [(old_static, [])]\<rparr>)"
    by code_simp
  have m: "snd (on_message online_env clear_event stale_state)
             = empty_state\<lparr>posted := [(4, CACHE_CLEARED True None)]\<rparr>"
          "snd (on_message locked_env clear_event stale_state)
             = stale_state\<lparr>caches := [(old_static, [])],
                              posted := [(4, CACHE_CLEARED False (Some ''The operation is insecure''))]\<rparr>"
    by code_simp+
  from clear_cache_replies_exactly_once [OF e, of online_env stale_state]
       clear_cache_replies_exactly_once [OF e, of locked_env stale_state]
  have "fst (on_message online_env clear_event stale_state) = None"
       "fst (on_message locked_env clear_event stale_state) = None"
    by simp_all
  with e ok ko m show ?thesis by (simp add: prod_eq_iff)
qed

section \<open>Activation\<close>

lemma phase_ok_init: "phase_ok (activate_init cs)"
  by (simp add: phase_ok_def activate_init_def)

lemma phase_ok_step: "activate_step env s s' \<Longrightarrow> phase_ok s \<Longrightarrow> phase_ok s'"
  by (induction rule: activate_step.induct) (auto simp: phase_ok_def)

lemma phase_ok_reachable:
  "(activate_step env)\<^sup>*\<^sup>* (activate_init cs) s \<Longrightarrow> phase_ok s"
  by (induction rule: rtranclp_induct) (auto intro: phase_ok_init phase_ok_step)

text \<open>
  Claim C9. In every execution of the activate handler, when \<open>clients.claim\<close> has been
  reached no deletion started by the handler is still in flight, and no obsolete cache
  is left: the deletion of every superseded store has completed before control of the
  clients is claimed.
\<close>

theorem claim_only_after_deletions:
  "(activate_step env)\<^sup>*\<^sup>* (activate_init cs) s \<Longrightarrow> act_phase s = Claimed \<Longrightarrow>
   act_pending s = [] \<and> (\<forall>name \<in> set (map fst (act_caches s)). \<not> obsolete name)"
  using phase_ok_reachable [of env cs s] by (auto simp: phase_ok_def)

lemma activate_run:
  "(activate_step online_env)\<^sup>*\<^sup>* (activate_init stale_caches) claimed_state"
proof -
  let ?s1 = "\<lparr>act_caches = stale_caches, act_pending = [old_static], act_phase = AwaitingDeletes\<rparr>"
  let ?s2 = "\<lparr>act_caches = [(STATIC_CACHE, []), (DYNAMIC_CACHE, [])], act_pending = [],
              act_phase = AwaitingDeletes\<rparr>"
  have f: "filter obsolete (map fst stale_caches) = [old_static]"
    by code_simp
  have g: "filter (\<lambda>p. fst p \<noteq> old_static) stale_caches = [(STATIC_CACHE, []), (DYNAMIC_CACHE, [])]"
    by code_simp
  have "activate_step online_env (activate_init stale_caches) ?s1"
    using deletes_started [of "activate_init stale_caches" online_env]
    by (simp add: activate_init_def online_env_def quiet_def f)
  moreover have "activate_step online_env ?s1 ?s2"
    using delete_resolves [of old_static ?s1 online_env]
    by (simp add: online_env_def quiet_def g)
  moreover have "activate_step online_env ?s2 claimed_state"
    using claim [of ?s2 online_env] by (simp add: claimed_state_def)
  ultimately show ?thesis by (meson rtranclp.rtrancl_into_rtrancl rtranclp.rtrancl_refl)
qed

text \<open>
  Claim C9 at a concrete run: an old static cache beside the two current ones; the
  handler lists the caches, starts the deletion of the old one, sees it resolve, and
  claims.
\<close>

theorem claim_only_after_deletions_witness:
  "(activate_step online_env)\<^sup>*\<^sup>* (activate_init stale_caches) claimed_state
   \<and> act_phase claimed_state = Claimed
   \<and> act_pending claimed_state = []
   \<and> list_all (\<lambda>name. \<not> obsolete name) (map fst (act_caches claimed_state))
   \<and> obsolete old_static"
proof -
  have p: "act_phase claimed_state = Claimed" by (simp add: claimed_state_def)
  have o: "obsolete old_static" by code_simp
  from claim_only_after_deletions [OF activate_run p] activate_run p o
  show ?thesis by (simp add: list_all_iff)
qed

section \<open>History: load and merge\<close>

text \<open>
  Claim C4. With both backends in use, \<open>loadHistory\<close> returns the union of the two
  backends keyed by identifier: the identifiers returned are those of the fast backend
  together with those of the larger backend, no identifier is returned twice, the
  result is ordered by timestamp, latest first, and a returned record whose identifier
  the larger (IndexedDB) backend holds is a record of that backend, the others being
  records of the fast backend. The scenario of the claim (fast backend with ids 1 and 2,
  larger backend with ids 2 and 3) is the instance evaluated after the theorem.
\<close>

theorem loadHistory_merges_backends:
  "set (map item_id (loadHistory \<lparr>localStorage = Some localData, isIndexedDBAvailable = True,
                                  db = Some indexedData\<rparr>))
     = set (map item_id localData) \<union> set (map item_id indexedData)
   \<and> distinct (map item_id (loadHistory \<lparr>localStorage = Some localData,
                                         isIndexedDBAvailable = True, db = Some indexedData\<rparr>))
   \<and> sorted_wrt (\<lambda>a b. item_timestamp b \<le> item_timestamp a)
        (loadHistory \<lparr>localStorage = Some localData, isIndexedDBAvailable = True,
                      db = Some indexedData\<rparr>)
   \<and> (\<forall>r \<in> set (loadHistory \<lparr>localStorage = Some localData, isIndexedDBAvailable = True,
                                db = Some indexedData\<rparr>).
         if item_id r \<in> set (map item_id indexedData) then r \<in> set indexedData
         else r \<in> set localData)"
proof -
  let ?st = "\<lparr>localStorage = Some localData, isIndexedDBAvailable = True, db = Some indexedData\<rparr>"
  have load: "loadHistory ?st = sort_latest_first (mergeHistoryData localData indexedData)"
    by (simp add: loadHistory_def loadFromLocalStorage_def loadFromIndexedDB_def)
  have ids: "set (map item_id (loadHistory ?st))
               = set (map item_id localData) \<union> set (map item_id indexedData)"
    using merge_ids [of localData indexedData]
    by (simp add: load sort_latest_first_set)
  have dist: "distinct (map item_id (loadHistory ?st))"
    by (simp add: load sort_latest_first_distinct merge_distinct)
  have srt: "sorted_wrt (\<lambda>a b. item_timestamp b \<le> item_timestamp a) (loadHistory ?st)"
    by (simp only: load sort_latest_first_sorted)
  have orig: "\<forall>r \<in> set (loadHistory ?st).
         if item_id r \<in> set (map item_id indexedData) then r \<in> set indexedData
         else r \<in> set localData"
    using merge_origin [of _ localData indexedData]
    by (simp add: load sort_latest_first_set)
  from ids dist srt orig show ?thesis by blast
qed

text \<open>
  The scenario of claim C4: the load returns the records with ids 3, 2 and 1, and the
  record with id 2 is the larger backend's, which differs from the fast backend's.
\<close>

theorem loadHistory_merges_backends_witness:
  "loadHistory \<lparr>localStorage = Some [fast_1, fast_2], isIndexedDBAvailable = True,
                db = Some [larger_2, larger_3]\<rparr> = [larger_3, larger_2, fast_1]
   \<and> map item_id [larger_3, larger_2, fast_1] = [3, 2, 1]
   \<and> larger_2 \<in> set [larger_2, larger_3] \<and> larger_2 \<noteq> fast_2"
  using loadHistory_merges_backends [of "[fast_1, fast_2]" "[larger_2, larger_3]"]
  by (simp add: loadHistory_def loadFromLocalStorage_def loadFromIndexedDB_def
      sort_latest_first_def mergeHistoryData_def merge_seed_def merge_fill_def map_values_def
      map_has_def fast_1_def fast_2_def larger_2_def larger_3_def)

text \<open>
  Claim C6. The merge is commutative and idempotent on identity: merging \<open>A\<close> with
  \<open>B\<close> and merging \<open>B\<close> with \<open>A\<close> give the same set of record identifiers, and merging
  \<open>A\<close> with itself gives exactly the identifiers of \<open>A\<close>.
\<close>

theorem mergeHistoryData_identity_set:
  "set (map item_id (mergeHistoryData A B)) = set (map item_id (mergeHistoryData B A))
   \<and> set (map item_id (mergeHistoryData A A)) = set (map item_id A)"
  by (simp only: merge_ids) auto

section \<open>History: saving under a quota\<close>

lemma minimalData_projection: "r' \<in> set (minimalData h) \<Longrightarrow> \<exists>r \<in> set h. projection_of r' r"
  by (auto simp: minimalData_def projection_of_def)

lemma minimalData_ids: "map item_id (minimalData h) = map item_id h"
  by (simp add: minimalData_def)

lemma merge_seed_fresh:
  "distinct (map item_id xs) \<Longrightarrow> fst ` set m \<inter> item_id ` set xs = {} \<Longrightarrow>
   merge_seed m xs = m @ map (\<lambda>r. (item_id r, r)) xs"
proof (induction xs arbitrary: m)
  case Nil
  then show ?case by (simp add: merge_seed_def)
next
  case (Cons x xs)
  from Cons.prems have fresh: "item_id x \<notin> set (map fst m)" by auto
  have step: "map_set (item_id x) x m = m @ [(item_id x, x)]"
    using fresh by (induction m) auto
  have "merge_seed m (x # xs) = merge_seed (m @ [(item_id x, x)]) xs"
    by (simp add: merge_seed_def step)
  also have "\<dots> = (m @ [(item_id x, x)]) @ map (\<lambda>r. (item_id r, r)) xs"
    using Cons.prems by (intro Cons.IH) auto
  finally show ?case by simp
qed

lemma merge_fill_known:
  "item_id ` set xs \<subseteq> fst ` set m \<Longrightarrow> merge_fill m xs = m"
  unfolding merge_fill_def by (induction xs) (auto simp: map_has_keys)

lemma merge_projection_with_full:
  assumes "distinct (map item_id h)"
  shows "mergeHistoryData (minimalData h) (sort_key item_id h) = sort_key item_id h"
proof -
  let ?is = "sort_key item_id h"
  have d: "distinct (map item_id ?is)" using assms by (simp add: distinct_map)
  have seed: "merge_seed [] ?is = map (\<lambda>r. (item_id r, r)) ?is"
    using merge_seed_fresh [OF d, of "[]"] by simp
  have "item_id ` set (minimalData h) = item_id ` set h"
    using minimalData_ids [of h] by (metis list.set_map)
  then have "item_id ` set (minimalData h) \<subseteq> fst ` set (map (\<lambda>r. (item_id r, r)) ?is)"
    by (auto simp: image_image)
  then have "merge_fill (map (\<lambda>r. (item_id r, r)) ?is) (minimalData h)
               = map (\<lambda>r. (item_id r, r)) ?is"
    by (rule merge_fill_known)
  then show ?thesis
    by (simp add: mergeHistoryData_def seed map_values_def comp_def)
qed

text \<open>
  When the larger backend is in use and took the same save, the load after a quota
  retry returns that backend's records, which are the full ones.
\<close>

lemma quota_retry_with_indexeddb:
  assumes "setItem (dataToStore h) = Some error"
    and "err_name error = ''QuotaExceededError''"
    and "setItem (minimalData h) = None"
    and "isIndexedDBAvailable st" and "db st = Some old"
    and "distinct (map item_id h)"
  shows "loadHistory (snd (saveHistory setItem h st))
           = sort_latest_first (sort_key item_id h)"
proof -
  have "snd (saveHistory setItem h st)
          = st\<lparr>localStorage := Some (minimalData h), db := Some (sort_key item_id h)\<rparr>"
    using assms by (simp add: saveHistory_def saveToLocalStorage_def saveToIndexedDB_def Let_def)
  then show ?thesis
    using assms(4) merge_projection_with_full [OF assms(6)]
    by (simp add: loadHistory_def loadFromLocalStorage_def loadFromIndexedDB_def)
qed

text \<open>The retried write can be refused as well; the error is then thrown.\<close>

lemma quota_retry_can_fail:
  "saveToLocalStorage (quota_setItem 5) [full_item] fresh_storage
     = (Inl quota_exceeded, fresh_storage)"
  by code_simp

text \<open>
  Claim C5 says that after a quota-exceeded write the retried save succeeds and a later
  load returns every record with only the rendered image missing, raw content intact.
  That fails: one full record, a fast backend whose budget the full write exceeds and
  the reduced write fits, no larger backend. The save succeeds, and the record that the
  load returns has no raw content.
\<close>

theorem quota_retry_drops_content:
  "quota_setItem 20 (dataToStore [full_item]) = Some quota_exceeded
   \<and> fst (saveToLocalStorage (quota_setItem 20) [full_item] fresh_storage) = Inr True
   \<and> item_content full_item = Some ''hello world''
   \<and> map item_content
        (loadHistory (snd (saveToLocalStorage (quota_setItem 20) [full_item] fresh_storage)))
       = [None]"
  by code_simp

text \<open>
  Claim C5 as amended. If the fast-backend write of the records raises a quota-exceeded
  error and the write of their reduced projections is accepted, the save succeeds and
  the fast backend holds the projections; a load that reads the fast backend alone then
  returns as many records as were saved, latest first, each the reduced projection of a
  saved record: identifier, kind, mode, content type, preview, timestamp and size
  intact, raw content and rendered image both missing.
\<close>

theorem quota_retry_saves_projection:
  assumes "setItem (dataToStore h) = Some error"
    and "err_name error = ''QuotaExceededError''"
    and "setItem (minimalData h) = None"
    and "\<not> (isIndexedDBAvailable st \<and> db st \<noteq> None)"
  shows "saveToLocalStorage setItem h st = (Inr True, st\<lparr>localStorage := Some (minimalData h)\<rparr>)
    \<and> loadHistory (snd (saveToLocalStorage setItem h st)) = sort_latest_first (minimalData h)
    \<and> length (loadHistory (snd (saveToLocalStorage setItem h st))) = length h
    \<and> (\<forall>r' \<in> set (loadHistory (snd (saveToLocalStorage setItem h st))).
          \<exists>r \<in> set h. projection_of r' r)"
proof -
  let ?st' = "st\<lparr>localStorage := Some (minimalData h)\<rparr>"
  have save: "saveToLocalStorage setItem h st = (Inr True, ?st')"
    using assms(1-3) by (simp add: saveToLocalStorage_def)
  have load: "loadHistory ?st' = sort_latest_first (minimalData h)"
    using assms(4) by (auto simp: loadHistory_def loadFromLocalStorage_def)
  have len: "length (sort_latest_first (minimalData h)) = length h"
    by (simp add: sort_latest_first_def minimalData_def)
  have proj: "\<forall>r' \<in> set (sort_latest_first (minimalData h)). \<exists>r \<in> set h. projection_of r' r"
    using minimalData_projection by (simp add: sort_latest_first_set)
  from save load len proj show ?thesis by simp
qed

text \<open>
  The amended claim C5 at a concrete input: the full record, the budget of 20
  characters, no larger backend.
\<close>

theorem quota_retry_saves_projection_witness:
  "quota_setItem 20 (dataToStore [full_item]) = Some quota_exceeded
   \<and> err_name quota_exceeded = ''QuotaExceededError''
   \<and> quota_setItem 20 (minimalData [full_item]) = None
   \<and> \<not> (isIndexedDBAvailable fresh_storage \<and> db fresh_storage \<noteq> None)
   \<and> saveToLocalStorage (quota_setItem 20) [full_item] fresh_storage
       = (Inr True, fresh_storage\<lparr>localStorage := Some (minimalData [full_item])\<rparr>)
   \<and> loadHistory (snd (saveToLocalStorage (quota_setItem 20) [full_item] fresh_storage))
       = [full_item\<lparr>item_content := None, item_qrData := None\<rparr>]"
proof -
  have a: "quota_setItem 20 (dataToStore [full_item]) = Some quota_exceeded" by code_simp
  have b: "err_name quota_exceeded = ''QuotaExceededError''" by code_simp
  have c: "quota_setItem 20 (minimalData [full_item]) = None" by code_simp
  have d: "\<not> (isIndexedDBAvailable fresh_storage \<and> db fresh_storage \<noteq> None)"
    by (simp add: fresh_storage_def)
  have e: "sort_latest_first (minimalData [full_item])
             = [full_item\<lparr>item_content := None, item_qrData := None\<rparr>]"
    by code_simp
  note th = quota_retry_saves_projection [OF a b c d]
  from th have s: "saveToLocalStorage (quota_setItem 20) [full_item] fresh_storage
       = (Inr True, fresh_storage\<lparr>localStorage := Some (minimalData [full_item])\<rparr>)"
    by (rule conjunct1)
  from th have "loadHistory (snd (saveToLocalStorage (quota_setItem 20) [full_item] fresh_storage))
       = sort_latest_first (minimalData [full_item])"
    by (elim conjE)
  with e have l: "loadHistory (snd (saveToLocalStorage (quota_setItem 20) [full_item] fresh_storage))
       = [full_item\<lparr>item_content := None, item_qrData := None\<rparr>]"
    by (simp only:)
  from a b c d s l show ?thesis by (intro conjI)
qed

section \<open>History: what the fast backend stores\<close>

text \<open>
  Claim C10. The fast backend never receives rendered-image bytes, also when no quota
  error occurs. A record's \<open>qrData\<close> counts as present when the script's own test
  \<open>item.qrData\<close> holds. When the first write is accepted, \<open>saveToLocalStorage\<close>
  stores one record per record saved, equal to it except for \<open>qrData\<close>, which is the
  sentinel \<open>stored_in_indexeddb\<close> when the saved record's \<open>qrData\<close> is present and
  undefined otherwise. In every case the value under the key afterwards is the old one,
  this list or the list of reduced projections, and neither list has a \<open>qrData\<close> other
  than the sentinel.
\<close>

theorem localStorage_never_holds_image:
  "(setItem (dataToStore h) = None \<longrightarrow>
      saveToLocalStorage setItem h st = (Inr True, st\<lparr>localStorage := Some (dataToStore h)\<rparr>)
      \<and> length (dataToStore h) = length h
      \<and> (\<forall>k < length h.
            dataToStore h ! k
              = (h ! k)\<lparr>item_qrData := (if truthy (item_qrData (h ! k))
                                        then Some ''stored_in_indexeddb'' else None)\<rparr>))
   \<and> (localStorage (snd (saveToLocalStorage setItem h st)) = localStorage st
      \<or> localStorage (snd (saveToLocalStorage setItem h st)) = Some (dataToStore h)
      \<or> localStorage (snd (saveToLocalStorage setItem h st)) = Some (minimalData h))
   \<and> list_all sentinel_or_absent (dataToStore h)
   \<and> list_all sentinel_or_absent (minimalData h)"
  by (auto simp: saveToLocalStorage_def dataToStore_def minimalData_def sentinel_or_absent_def
      list_all_iff split: option.splits)

text \<open>
  Claim C10 at a concrete input: a record with an image and a record without the
  field, written to a backend that accepts everything.
\<close>

theorem localStorage_never_holds_image_witness:
  "accept_all (dataToStore [full_item, larger_3]) = None
   \<and> truthy (item_qrData full_item)
   \<and> item_qrData larger_3 = None
   \<and> saveToLocalStorage accept_all [full_item, larger_3] fresh_storage
       = (Inr True,
          fresh_storage\<lparr>localStorage :=
            Some [full_item\<lparr>item_qrData := Some ''stored_in_indexeddb''\<rparr>, larger_3]\<rparr>)"
proof -
  have a: "accept_all (dataToStore [full_item, larger_3]) = None"
    by (simp add: accept_all_def)
  have t: "truthy (item_qrData full_item)" "item_qrData larger_3 = None"
    by code_simp+
  have d: "dataToStore [full_item, larger_3]
             = [full_item\<lparr>item_qrData := Some ''stored_in_indexeddb''\<rparr>, larger_3]"
    by code_simp
  from localStorage_never_holds_image [of accept_all "[full_item, larger_3]" fresh_storage]
    a t d
  show ?thesis by simp
qed

end
